theory Spec2Isabelle
  imports Main
begin

section \<open>Values of the host language\<close>

text \<open>
  A reference handed in by the host is \<open>undefined\<close>, \<open>null\<close> or an object. The
  focus-changed handler compares with \<open>=== undefined\<close>, so the two empty values are kept
  apart. Reading a property of an empty value raises a \<open>TypeError\<close>; what the handler
  has written before the error stays written, so an outcome carries the world as it was
  left.
\<close>

datatype 'a js_ref = Undefined | Null | Ref 'a

datatype js_error = TypeError

datatype 'a outcome = Returned 'a | Threw js_error 'a

fun world_of :: "'a outcome \<Rightarrow> 'a" where
  "world_of (Returned w) = w"
| "world_of (Threw e w) = w"

fun returned :: "'a outcome \<Rightarrow> bool" where
  "returned (Returned w) = True"
| "returned (Threw e w) = False"

type_synonym addr = nat

type_synonym point = "nat \<times> nat"

section \<open>Collaborators of the coordinator\<close>

text \<open>
  \<open>TextEditor\<close> (the host's editor handle, with \<open>id\<close> and \<open>getGrammar().name\<close>) and
  \<open>TypeScriptTextEditor\<close> (the language-aware handle, with \<open>id\<close> and the quick-info
  query). The answers of the language service are fields of the handle.
\<close>

record text_editor =
  editor_id :: nat
  grammar_name :: string

record diagnostic =
  messageText :: string

type_synonym quick_info = string

record ts_text_editor =
  ts_id :: nat
  getQuickInfoForBufferPosition :: "point \<Rightarrow> quick_info option"
  ts_diagnostics :: "point \<Rightarrow> diagnostic option"

text \<open>
  The two shapes of tooltip the hover handler sets: \<open>setTooltip(messageText, position)\<close>
  and \<open>setTooltip(new TypeScriptQuickInfo(info, position))\<close>.
\<close>

datatype tooltip = DiagnosticTooltip string point | QuickInfoTooltip quick_info point

text \<open>
  Modelled from the spec: \<open>TypeScriptTextEditorState\<close> (./state/TypeScriptTextEditorState)
  is not among the sources. The spec calls it the holder of "the auto-complete/diagnostic/
  tooltip state for one open editor instance", which is marked active, deactivated,
  disposed, and whose auto-complete session is toggled. The fields below are the ones the
  coordinator reads or writes (\<open>dataSlots\<close>, \<open>autoCompleteInProgress\<close>, \<open>inError\<close>) and
  one flag per pair of methods it calls.
\<close>

record ts_state =
  dataSlots :: "string \<Rightarrow> bool option"
  autoCompleteInProgress :: bool
  inError :: bool
  active :: bool
  disposed :: bool
  shown_tooltip :: "tooltip option"
  diagnosticAt :: "point \<Rightarrow> diagnostic option"

text \<open>The methods of a state object that the coordinator invokes.\<close>

datatype state_method =
    Activate
  | Deactivate
  | DisposeState
  | ToggleAutoComplete
  | ConfirmAutoCompleteItem
  | SelectNextAutoCompleteItem
  | SelectPreviousAutoCompleteItem
  | UpdateFromContentChange
  | UpdateFromCursorPosition point point bool
  | GetDiagnosticForBufferPosition point
  | SetTooltip tooltip
  | RemoveTooltip

text \<open>
  Modelled from the spec: the bodies of the methods of \<open>TypeScriptTextEditorState\<close> are
  not among the sources. \<open>activate\<close>/\<open>deactivate\<close> mark and unmark the state as
  active, \<open>dispose\<close> marks it disposed, \<open>toggleAutoComplete\<close> enters or leaves the
  auto-complete session ("toggles it off", "toggles it on"), \<open>setTooltip\<close>/
  \<open>removeTooltip\<close> show and clear the tooltip. What the remaining methods do inside the
  state is not visible from the coordinator: they are recorded as calls only.
\<close>

fun method_effect :: "state_method \<Rightarrow> ts_state \<Rightarrow> ts_state" where
  "method_effect Activate s = s\<lparr>active := True\<rparr>"
| "method_effect Deactivate s = s\<lparr>active := False\<rparr>"
| "method_effect DisposeState s = s\<lparr>disposed := True\<rparr>"
| "method_effect ToggleAutoComplete s = s\<lparr>autoCompleteInProgress := \<not> autoCompleteInProgress s\<rparr>"
| "method_effect (SetTooltip t) s = s\<lparr>shown_tooltip := Some t\<rparr>"
| "method_effect RemoveTooltip s = s\<lparr>shown_tooltip := None\<rparr>"
| "method_effect m s = s"

text \<open>
  Modelled from the spec: the constructor \<open>new TypeScriptTextEditorState(editor)\<close> is not
  among the sources. A fresh state is neither active nor disposed, has no session and no
  tooltip, an empty property bag, and answers diagnostic queries from its editor.
\<close>

definition new_state :: "ts_text_editor \<Rightarrow> ts_state" where
  "new_state e =
     \<lparr>dataSlots = (\<lambda>k. None), autoCompleteInProgress = False, inError = False,
      active = False, disposed = False, shown_tooltip = None,
      diagnosticAt = ts_diagnostics e\<rparr>"

text \<open>
  Modelled from the spec: \<open>TypeScriptDiagnosticStatusBar\<close> is not among the sources; it
  is the "status indicator" that is hidden, shown, and "mirrors the in-error flag of the
  active state".
\<close>

record status_bar =
  sb_inError :: bool
  sb_visible :: bool

text \<open>
  What the coordinator holds at the host: subscriptions to event streams, command
  registrations (selector, command name) and key-binding registrations (source name,
  selector, keys).
\<close>

datatype stream =
    EditorOpenedStream
  | FocusChangedStream
  | ContentsChangingStream nat
  | ContentsChangedStream nat
  | MouseHoverStream nat
  | CursorPositionStream nat
  | ClosedStream nat

datatype resource =
    StreamSubscription stream
  | CommandRegistration string string
  | KeymapRegistration string string "(string \<times> string) list"

text \<open>
  The function handed to \<open>executeAfterContentChange\<close>; its only caller passes
  \<open>() => state.toggleAutoComplete()\<close>, a closure over the state object.
\<close>

datatype deferred = DeferredToggle addr

text \<open>
  One \<open>setInterval\<close> timer of \<open>executeAfterContentChange\<close>: the captured state, the
  captured function, the captured counter \<open>intervalCount\<close>, the delay, and whether
  \<open>clearInterval\<close> has been called on it.
\<close>

record timer =
  tm_state :: addr
  tm_func :: deferred
  intervalCount :: nat
  tm_delay :: nat
  tm_cleared :: bool

text \<open>The event object of a command: the two things the handlers do to it.\<close>

record html_event =
  keyBindingAborted :: bool
  propagationStopped :: bool

section \<open>The coordinator and its world\<close>

text \<open>
  The private fields of \<open>TypeScriptWorkspace\<close>, then the part of the environment its
  methods touch. State objects live in \<open>heap\<close>, addressed by their index, because
  \<open>_textEditorStates\<close>, \<open>_activeTextEditorState\<close> and the timers' closures share them.
  In \<open>textEditorStates\<close>, \<open>None\<close> is a key that was never written and \<open>Some None\<close>
  a key holding \<open>undefined\<close>. \<open>calls\<close> lists every call made on a state object,
  oldest first.
\<close>

record world =
  textEditorStates :: "nat \<Rightarrow> addr option option"
  activeTextEditorState :: "addr option"
  statusBar :: "status_bar option"
  disposables :: "resource list"
  heap :: "ts_state list"
  calls :: "(addr \<times> state_method) list"
  live :: "resource list"
  timers :: "timer list"
  dom_status_bar :: bool
  left_tiles :: nat

text \<open>
  A call on the state object at \<open>a\<close>: the object changes as the operation says, and
  the call is appended to \<open>calls\<close>.
\<close>

definition invoke :: "addr \<Rightarrow> state_method \<Rightarrow> world \<Rightarrow> world" where
  "invoke a m w =
     w\<lparr>heap := (heap w)[a := method_effect m (heap w ! a)], calls := calls w @ [(a, m)]\<rparr>"

text \<open>\<open>state.dataSlots[k] = v\<close> on the state object at \<open>a\<close>.\<close>

definition set_slot :: "addr \<Rightarrow> string \<Rightarrow> bool \<Rightarrow> world \<Rightarrow> world" where
  "set_slot a k v w =
     w\<lparr>heap := (heap w)[a := (heap w ! a)\<lparr>dataSlots := (dataSlots (heap w ! a))(k \<mapsto> v)\<rparr>]\<rparr>"

text \<open>Truthiness of a slot read: a missing slot is \<open>undefined\<close>, which is falsy.\<close>

fun truthy :: "bool option \<Rightarrow> bool" where
  "truthy None = False"
| "truthy (Some b) = b"

text \<open>\<open>this._textEditorStates[k]\<close>: \<open>undefined\<close> for a missing key and for a key holding it.\<close>

definition lookup_state :: "world \<Rightarrow> nat \<Rightarrow> addr option" where
  "lookup_state w k = (case textEditorStates w k of None \<Rightarrow> None | Some v \<Rightarrow> v)"

subsection \<open>constructor and dispose\<close>

definition ts_selector :: string where
  "ts_selector = ''atom-text-editor[data-grammar='source typescript']''"

definition ts_selector_open :: string where
  "ts_selector_open = ''atom-text-editor[data-grammar='source typescript'' @ [CHR 0x27]"

definition keys :: "(string \<times> string) list" where
  "keys =
     [(''escape'', ''typescript-atomizer-autocomplete:dismiss''),
      (''tab'', ''typescript-atomizer-autocomplete:confirm''),
      (''enter'', ''typescript-atomizer-autocomplete:confirm''),
      (''up'', ''typescript-atomizer-autocomplete:select-previous''),
      (''down'', ''typescript-atomizer-autocomplete:select-next'')]"

text \<open>
  The six handles the constructor pushes onto \<open>_disposables\<close>, in order. The second to
  fifth selector lack the closing bracket, as in the source.
\<close>

definition pushed :: "resource list" where
  "pushed =
     [CommandRegistration ts_selector ''typescript-atomizer-autocomplete:toggle'',
      CommandRegistration ts_selector_open ''typescript-atomizer-autocomplete:dismiss'',
      CommandRegistration ts_selector_open ''typescript-atomizer-autocomplete:confirm'',
      CommandRegistration ts_selector_open ''typescript-atomizer-autocomplete:select-next'',
      CommandRegistration ts_selector_open ''typescript-atomizer-autocomplete:select-previous'',
      KeymapRegistration ''TypeScriptWorkspace'' ts_selector keys]"

text \<open>
  The constructor. The two \<open>subscribe\<close> calls come first and their results are dropped;
  \<open>_activeTextEditorState\<close> is not assigned and so is \<open>undefined\<close>. The argument says
  whether the host's document has a \<open>status-bar\<close> element.
\<close>

definition construct :: "bool \<Rightarrow> world" where
  "construct has_bar =
     \<lparr>textEditorStates = (\<lambda>k. None), activeTextEditorState = None, statusBar = None,
      disposables = pushed, heap = [], calls = [],
      live = [StreamSubscription EditorOpenedStream, StreamSubscription FocusChangedStream] @ pushed,
      timers = [], dom_status_bar = has_bar, left_tiles = 0\<rparr>"

text \<open>
  Modelled from the spec: \<open>CompositeDisposable\<close> (atomizer-core) is not among the
  sources; its \<open>dispose\<close> releases every handle that was pushed onto it ("scoped
  acquisition released on teardown").
\<close>

definition dispose :: "world \<Rightarrow> world" where
  "dispose w = w\<lparr>live := filter (\<lambda>r. r \<notin> set (disposables w)) (live w)\<rparr>"

subsection \<open>The status bar\<close>

definition getStatusBar :: "world \<Rightarrow> world" where
  "getStatusBar w =
     (case statusBar w of
        Some sb \<Rightarrow> w
      | None \<Rightarrow>
          w\<lparr>statusBar := Some \<lparr>sb_inError = False, sb_visible = False\<rparr>,
            left_tiles := (if dom_status_bar w then left_tiles w + 1 else left_tiles w)\<rparr>)"

definition hide :: "world \<Rightarrow> world" where
  "hide w = w\<lparr>statusBar := map_option (\<lambda>sb. sb\<lparr>sb_visible := False\<rparr>) (statusBar w)\<rparr>"

definition updateStatusBar :: "world \<Rightarrow> addr \<Rightarrow> world" where
  "updateStatusBar w a =
     (let w1 = getStatusBar w
      in w1\<lparr>statusBar :=
              map_option (\<lambda>sb. sb\<lparr>sb_inError := inError (heap w1 ! a), sb_visible := True\<rparr>)
                (statusBar w1)\<rparr>)"

subsection \<open>Handlers of the editor streams\<close>

definition onTypeScriptTextEditorOpened :: "world \<Rightarrow> ts_text_editor \<Rightarrow> world" where
  "onTypeScriptTextEditorOpened w e =
     (let state = (new_state e)\<lparr>dataSlots := (dataSlots (new_state e))(''contents-changing'' \<mapsto> False)\<rparr>
      in w\<lparr>heap := heap w @ [state],
           textEditorStates := (textEditorStates w)(ts_id e \<mapsto> Some (length (heap w))),
           live := live w @
             [StreamSubscription (ContentsChangingStream (ts_id e)),
              StreamSubscription (ContentsChangedStream (ts_id e)),
              StreamSubscription (MouseHoverStream (ts_id e)),
              StreamSubscription (CursorPositionStream (ts_id e)),
              StreamSubscription (ClosedStream (ts_id e))]\<rparr>)"

definition onTextEditorChanged :: "world \<Rightarrow> text_editor js_ref \<Rightarrow> world outcome" where
  "onTextEditorChanged w textEditor =
     (let w1 = getStatusBar w
      in case textEditor of
           Undefined \<Rightarrow> Returned (hide w1)
         | Null \<Rightarrow> Threw TypeError w1
         | Ref te \<Rightarrow>
             if grammar_name te \<noteq> ''TypeScript'' then Returned (hide w1)
             else
               let w2 = (case activeTextEditorState w1 of
                           Some p \<Rightarrow> invoke p Deactivate w1
                         | None \<Rightarrow> w1);
                   state = lookup_state w2 (editor_id te);
                   w3 = w2\<lparr>activeTextEditorState := state\<rparr>
               in case state of
                    None \<Rightarrow> Threw TypeError w3
                  | Some a \<Rightarrow> Returned (updateStatusBar (invoke a Activate w3) a))"

definition onTypeScriptTextEditorContentsChanging :: "world \<Rightarrow> ts_text_editor \<Rightarrow> world outcome" where
  "onTypeScriptTextEditorContentsChanging w e =
     (case lookup_state w (ts_id e) of
        None \<Rightarrow> Threw TypeError w
      | Some a \<Rightarrow> Returned (set_slot a ''contents-changing'' True w))"

definition onTypeScriptTextEditorContentsChanged :: "world \<Rightarrow> ts_text_editor \<Rightarrow> world outcome" where
  "onTypeScriptTextEditorContentsChanged w e =
     (case lookup_state w (ts_id e) of
        None \<Rightarrow> Threw TypeError w
      | Some a \<Rightarrow>
          Returned (updateStatusBar
            (invoke a UpdateFromContentChange (set_slot a ''contents-changing'' False w)) a))"

definition onMouseHoverPositionChanged ::
    "world \<Rightarrow> ts_text_editor \<Rightarrow> point option \<Rightarrow> world outcome" where
  "onMouseHoverPositionChanged w e bufferPosition =
     (let state = lookup_state w (ts_id e)
      in case bufferPosition of
           None \<Rightarrow>
             (case state of
                None \<Rightarrow> Threw TypeError w
              | Some a \<Rightarrow> Returned (invoke a RemoveTooltip w))
         | Some p \<Rightarrow>
             (case state of
                None \<Rightarrow> Threw TypeError w
              | Some a \<Rightarrow>
                  if autoCompleteInProgress (heap w ! a) then Returned w
                  else
                    let w1 = invoke a (GetDiagnosticForBufferPosition p) w
                    in case diagnosticAt (heap w ! a) p of
                         Some d \<Rightarrow>
                           Returned
                             (invoke a (SetTooltip (DiagnosticTooltip (messageText d) p)) w1)
                       | None \<Rightarrow>
                           (case getQuickInfoForBufferPosition e p of
                              Some info \<Rightarrow>
                                Returned (invoke a (SetTooltip (QuickInfoTooltip info p)) w1)
                            | None \<Rightarrow> Returned (invoke a RemoveTooltip w1))))"

definition onCursorPositionChanged ::
    "world \<Rightarrow> ts_text_editor \<Rightarrow> point \<Rightarrow> point \<Rightarrow> bool \<Rightarrow> world outcome" where
  "onCursorPositionChanged w e oldBufferPosition newBufferPosition textChanged =
     (case lookup_state w (ts_id e) of
        None \<Rightarrow> Threw TypeError w
      | Some a \<Rightarrow>
          Returned (invoke a
            (UpdateFromCursorPosition oldBufferPosition newBufferPosition textChanged) w))"

definition onTypeScriptTextEditorClosed :: "world \<Rightarrow> ts_text_editor \<Rightarrow> world outcome" where
  "onTypeScriptTextEditorClosed w e =
     (case lookup_state w (ts_id e) of
        None \<Rightarrow> Threw TypeError w
      | Some a \<Rightarrow>
          Returned ((invoke a DisposeState w)
            \<lparr>textEditorStates := (textEditorStates w)(ts_id e \<mapsto> None)\<rparr>))"

subsection \<open>Deferred execution\<close>

definition maxIntervals :: nat where
  "maxIntervals = 50"

text \<open>
  \<open>executeAfterContentChange\<close> starts a timer with \<open>intervalCount = 0\<close> and delay 2 and
  returns; everything else happens in the timer's function.
\<close>

definition executeAfterContentChange :: "world \<Rightarrow> addr \<Rightarrow> deferred \<Rightarrow> world" where
  "executeAfterContentChange w state func =
     w\<lparr>timers := timers w @
        [\<lparr>tm_state = state, tm_func = func, intervalCount = 0, tm_delay = 2, tm_cleared = False\<rparr>]\<rparr>"

fun run_deferred :: "deferred \<Rightarrow> world \<Rightarrow> world" where
  "run_deferred (DeferredToggle a) w = invoke a ToggleAutoComplete w"

text \<open>
  The body of the \<open>if\<close> in the timer's function: \<open>func()\<close>, the slot set to false,
  \<open>clearInterval(interval)\<close>.
\<close>

definition fire :: "nat \<Rightarrow> world \<Rightarrow> world" where
  "fire i w =
     (let t = timers w ! i;
          w1 = run_deferred (tm_func t) w;
          w2 = set_slot (tm_state t) ''contents-changing'' False w1
      in w2\<lparr>timers := (timers w2)[i := (timers w2 ! i)\<lparr>tm_cleared := True\<rparr>]\<rparr>)"

text \<open>
  The timer's function. Its condition is
  \<open>!state.dataSlots["contents-changing"] || intervalCount++ > maxIntervals\<close>: the right
  operand is evaluated only when the slot is truthy, it increments the counter and compares
  the value the counter had before.
\<close>

definition interval_callback :: "nat \<Rightarrow> world \<Rightarrow> world" where
  "interval_callback i w =
     (let t = timers w ! i
      in if \<not> truthy (dataSlots (heap w ! tm_state t) ''contents-changing'') then fire i w
         else
           let w1 = w\<lparr>timers := (timers w)[i := t\<lparr>intervalCount := intervalCount t + 1\<rparr>]\<rparr>
           in if intervalCount t > maxIntervals then fire i w1 else w1)"

text \<open>The host runs the function of timer \<open>i\<close> once per interval until it is cleared.\<close>

definition timer_fired :: "nat \<Rightarrow> world \<Rightarrow> world" where
  "timer_fired i w =
     (if i < length (timers w) then
        (if tm_cleared (timers w ! i) then w else interval_callback i w)
      else w)"

subsection \<open>Handlers of the commands\<close>

text \<open>
  Both handlers start from \<open>this._workspace.getActiveTextEditor()\<close>, the argument
  \<open>focused\<close>: \<open>None\<close> when the host has no active text editor, and then reading
  \<open>.id\<close> or \<open>.getGrammar()\<close> raises.
\<close>

definition withAutoCompleteInProgress ::
    "world \<Rightarrow> text_editor option \<Rightarrow> html_event \<Rightarrow> (addr \<Rightarrow> world \<Rightarrow> world)
       \<Rightarrow> (world \<times> html_event) outcome" where
  "withAutoCompleteInProgress w focused htmlEvent callback =
     (case focused of
        None \<Rightarrow> Threw TypeError (w, htmlEvent)
      | Some te \<Rightarrow>
          (case lookup_state w (editor_id te) of
             None \<Rightarrow> Threw TypeError (w, htmlEvent)
           | Some a \<Rightarrow>
               if \<not> autoCompleteInProgress (heap w ! a)
               then Returned (w, htmlEvent\<lparr>keyBindingAborted := True\<rparr>)
               else Returned (callback a w, htmlEvent\<lparr>propagationStopped := True\<rparr>)))"

definition onToggleAutoComplete ::
    "world \<Rightarrow> text_editor option \<Rightarrow> html_event \<Rightarrow> (world \<times> html_event) outcome" where
  "onToggleAutoComplete w focused htmlEvent =
     (case focused of
        None \<Rightarrow> Threw TypeError (w, htmlEvent)
      | Some textEditor \<Rightarrow>
          if grammar_name textEditor \<noteq> ''TypeScript''
          then Returned (w, htmlEvent\<lparr>keyBindingAborted := True\<rparr>)
          else
            (case lookup_state w (editor_id textEditor) of
               None \<Rightarrow> Threw TypeError (w, htmlEvent\<lparr>propagationStopped := True\<rparr>)
             | Some a \<Rightarrow>
                 if autoCompleteInProgress (heap w ! a)
                 then Returned (invoke a ToggleAutoComplete w,
                                htmlEvent\<lparr>propagationStopped := True\<rparr>)
                 else Returned (executeAfterContentChange w a (DeferredToggle a),
                                htmlEvent\<lparr>propagationStopped := True\<rparr>)))"

text \<open>The four commands the constructor routes through \<open>withAutoCompleteInProgress\<close>.\<close>

datatype ac_command = Dismiss | Confirm | SelectNext | SelectPrevious

fun guarded_method :: "ac_command \<Rightarrow> state_method" where
  "guarded_method Dismiss = ToggleAutoComplete"
| "guarded_method Confirm = ConfirmAutoCompleteItem"
| "guarded_method SelectNext = SelectNextAutoCompleteItem"
| "guarded_method SelectPrevious = SelectPreviousAutoCompleteItem"

definition guarded_callback :: "ac_command \<Rightarrow> addr \<Rightarrow> world \<Rightarrow> world" where
  "guarded_callback c a w = invoke a (guarded_method c) w"

section \<open>Event traces\<close>

text \<open>
  The host is single-threaded and every handler runs to completion, so a run of the
  extension is a sequence of events, each handled in full. Any order of events is allowed
  here, which covers every order the host can produce. A handler that raises leaves the
  world as it had written it.
\<close>

datatype event =
    EditorOpened ts_text_editor
  | FocusChanged "text_editor js_ref"
  | ContentsChanging ts_text_editor
  | ContentsChanged ts_text_editor
  | MouseHover ts_text_editor "point option"
  | CursorMoved ts_text_editor point point bool
  | EditorClosed ts_text_editor
  | ToggleCommand "text_editor option"
  | GuardedCommand ac_command "text_editor option"
  | TimerFired nat
  | WorkspaceDisposed

definition fresh_event :: html_event where
  "fresh_event = \<lparr>keyBindingAborted = False, propagationStopped = False\<rparr>"

fun step :: "world \<Rightarrow> event \<Rightarrow> world" where
  "step w (EditorOpened e) = onTypeScriptTextEditorOpened w e"
| "step w (FocusChanged r) = world_of (onTextEditorChanged w r)"
| "step w (ContentsChanging e) = world_of (onTypeScriptTextEditorContentsChanging w e)"
| "step w (ContentsChanged e) = world_of (onTypeScriptTextEditorContentsChanged w e)"
| "step w (MouseHover e p) = world_of (onMouseHoverPositionChanged w e p)"
| "step w (CursorMoved e p q c) = world_of (onCursorPositionChanged w e p q c)"
| "step w (EditorClosed e) = world_of (onTypeScriptTextEditorClosed w e)"
| "step w (ToggleCommand f) = fst (world_of (onToggleAutoComplete w f fresh_event))"
| "step w (GuardedCommand c f) =
     fst (world_of (withAutoCompleteInProgress w f fresh_event (guarded_callback c)))"
| "step w (TimerFired i) = timer_fired i w"
| "step w WorkspaceDisposed = dispose w"

definition run :: "bool \<Rightarrow> event list \<Rightarrow> world" where
  "run has_bar evs = foldl step (construct has_bar) evs"

inductive reachable :: "world \<Rightarrow> bool" where
  constructed: "reachable (construct has_bar)"
| handled: "reachable w \<Longrightarrow> reachable (step w ev)"

section \<open>Invariants of reachable worlds\<close>

text \<open>
  Every reference the coordinator holds points at an allocated state object, and the only
  state object that can be marked active is the one \<open>_activeTextEditorState\<close> points at.
\<close>

definition refs_allocated :: "world \<Rightarrow> bool" where
  "refs_allocated w \<longleftrightarrow>
     (\<forall>k a. lookup_state w k = Some a \<longrightarrow> a < length (heap w)) \<and>
     (\<forall>p. activeTextEditorState w = Some p \<longrightarrow> p < length (heap w))"

definition only_pointer_active :: "world \<Rightarrow> bool" where
  "only_pointer_active w \<longleftrightarrow>
     (\<forall>a < length (heap w). active (heap w ! a) \<longrightarrow> activeTextEditorState w = Some a)"

text \<open>Whether an event is the closing of the editor with identifier \<open>k\<close>.\<close>

fun closes :: "nat \<Rightarrow> event \<Rightarrow> bool" where
  "closes k (EditorClosed e) = (ts_id e = k)"
| "closes k ev = False"

section \<open>Sample editors and traces\<close>

text \<open>
  Two TypeScript editors and one plain-text editor. At position \<open>(0, 0)\<close> the first
  editor has both a diagnostic and quick-info, at \<open>(1, 0)\<close> quick-info only.
\<close>

definition editor1 :: ts_text_editor where
  "editor1 =
     \<lparr>ts_id = 1,
      getQuickInfoForBufferPosition =
        (\<lambda>p. if p = (0, 0) \<or> p = (1, 0) then Some ''var x: number'' else None),
      ts_diagnostics =
        (\<lambda>p. if p = (0, 0) then Some \<lparr>messageText = ''Type mismatch''\<rparr> else None)\<rparr>"

definition editor2 :: ts_text_editor where
  "editor2 =
     \<lparr>ts_id = 2, getQuickInfoForBufferPosition = (\<lambda>p. None), ts_diagnostics = (\<lambda>p. None)\<rparr>"

definition focus1 :: text_editor where
  "focus1 = \<lparr>editor_id = 1, grammar_name = ''TypeScript''\<rparr>"

definition focus2 :: text_editor where
  "focus2 = \<lparr>editor_id = 2, grammar_name = ''TypeScript''\<rparr>"

definition plain_editor :: text_editor where
  "plain_editor = \<lparr>editor_id = 3, grammar_name = ''Plain Text''\<rparr>"

text \<open>The first editor opened and focused.\<close>

definition world_focused :: world where
  "world_focused = run True [EditorOpened editor1, FocusChanged (Ref focus1)]"

text \<open>
  The first editor opened, its contents changing, and the toggle command given: a timer
  is polling while the slot stays true.
\<close>

definition world_polling :: world where
  "world_polling =
     run True [EditorOpened editor1, ContentsChanging editor1, ToggleCommand (Some focus1)]"

text \<open>
  The first editor opened and the toggle command given with the contents at rest; the
  first tick of the timer has started the auto-complete session.
\<close>

definition world_completing :: world where
  "world_completing =
     run True [EditorOpened editor1, ToggleCommand (Some focus1), TimerFired 0]"

text \<open>
  The first editor opened, focused and closed, then the second editor opened and focused.
\<close>

definition trace_close_active :: "event list" where
  "trace_close_active =
     [EditorOpened editor1, FocusChanged (Ref focus1), EditorClosed editor1,
      EditorOpened editor2, FocusChanged (Ref focus2)]"

text \<open>Both TypeScript editors opened, the first one focused.\<close>

definition world_two_open :: world where
  "world_two_open =
     run True [EditorOpened editor1, EditorOpened editor2, FocusChanged (Ref focus1)]"


section \<open>Facts about the helpers\<close>

lemma nth_update_eq:
  "xs[i := v] ! j = (if i = j \<and> i < length xs then v else xs ! j)"
  by (cases "i < length xs") (auto simp: nth_list_update list_update_beyond)

lemma active_method_effect:
  "active (method_effect m s) = (if m = Activate then True else if m = Deactivate then False else active s)"
  by (cases m) simp_all

lemma length_heap_invoke [simp]: "length (heap (invoke a m w)) = length (heap w)"
  and calls_invoke [simp]: "calls (invoke a m w) = calls w @ [(a, m)]"
  and states_invoke [simp]: "textEditorStates (invoke a m w) = textEditorStates w"
  and pointer_invoke [simp]: "activeTextEditorState (invoke a m w) = activeTextEditorState w"
  and timers_invoke [simp]: "timers (invoke a m w) = timers w"
  and live_invoke [simp]: "live (invoke a m w) = live w"
  and disposables_invoke [simp]: "disposables (invoke a m w) = disposables w"
  and statusBar_invoke [simp]: "statusBar (invoke a m w) = statusBar w"
  and lookup_invoke [simp]: "lookup_state (invoke a m w) k = lookup_state w k"
  by (simp_all add: invoke_def lookup_state_def)

lemma active_invoke:
  "active (heap (invoke a m w) ! b) =
     (if a = b \<and> a < length (heap w) \<and> m = Activate then True
      else if a = b \<and> a < length (heap w) \<and> m = Deactivate then False
      else active (heap w ! b))"
  by (simp add: invoke_def nth_update_eq active_method_effect)

lemma length_heap_set_slot [simp]: "length (heap (set_slot a k v w)) = length (heap w)"
  and calls_set_slot [simp]: "calls (set_slot a k v w) = calls w"
  and states_set_slot [simp]: "textEditorStates (set_slot a k v w) = textEditorStates w"
  and pointer_set_slot [simp]: "activeTextEditorState (set_slot a k v w) = activeTextEditorState w"
  and timers_set_slot [simp]: "timers (set_slot a k v w) = timers w"
  and live_set_slot [simp]: "live (set_slot a k v w) = live w"
  and disposables_set_slot [simp]: "disposables (set_slot a k v w) = disposables w"
  and statusBar_set_slot [simp]: "statusBar (set_slot a k v w) = statusBar w"
  and lookup_set_slot [simp]: "lookup_state (set_slot a k v w) j = lookup_state w j"
  by (simp_all add: set_slot_def lookup_state_def)

lemma active_set_slot [simp]: "active (heap (set_slot b k v w) ! a) = active (heap w ! a)"
  by (simp add: set_slot_def nth_update_eq)

lemma heap_getStatusBar [simp]: "heap (getStatusBar w) = heap w"
  and calls_getStatusBar [simp]: "calls (getStatusBar w) = calls w"
  and states_getStatusBar [simp]: "textEditorStates (getStatusBar w) = textEditorStates w"
  and pointer_getStatusBar [simp]: "activeTextEditorState (getStatusBar w) = activeTextEditorState w"
  and timers_getStatusBar [simp]: "timers (getStatusBar w) = timers w"
  and live_getStatusBar [simp]: "live (getStatusBar w) = live w"
  and disposables_getStatusBar [simp]: "disposables (getStatusBar w) = disposables w"
  and lookup_getStatusBar [simp]: "lookup_state (getStatusBar w) k = lookup_state w k"
  by (simp_all add: getStatusBar_def lookup_state_def split: option.splits)

lemma heap_hide [simp]: "heap (hide w) = heap w"
  and calls_hide [simp]: "calls (hide w) = calls w"
  and states_hide [simp]: "textEditorStates (hide w) = textEditorStates w"
  and pointer_hide [simp]: "activeTextEditorState (hide w) = activeTextEditorState w"
  and timers_hide [simp]: "timers (hide w) = timers w"
  and live_hide [simp]: "live (hide w) = live w"
  and disposables_hide [simp]: "disposables (hide w) = disposables w"
  and lookup_hide [simp]: "lookup_state (hide w) k = lookup_state w k"
  by (simp_all add: hide_def lookup_state_def)

lemma heap_updateStatusBar [simp]: "heap (updateStatusBar w a) = heap w"
  and calls_updateStatusBar [simp]: "calls (updateStatusBar w a) = calls w"
  and states_updateStatusBar [simp]: "textEditorStates (updateStatusBar w a) = textEditorStates w"
  and pointer_updateStatusBar [simp]: "activeTextEditorState (updateStatusBar w a) = activeTextEditorState w"
  and timers_updateStatusBar [simp]: "timers (updateStatusBar w a) = timers w"
  and live_updateStatusBar [simp]: "live (updateStatusBar w a) = live w"
  and disposables_updateStatusBar [simp]: "disposables (updateStatusBar w a) = disposables w"
  and lookup_updateStatusBar [simp]: "lookup_state (updateStatusBar w a) k = lookup_state w k"
  by (simp_all add: updateStatusBar_def Let_def lookup_state_def)

lemma length_heap_run_deferred [simp]:
  "length (heap (run_deferred f w)) = length (heap w)"
  and states_run_deferred [simp]: "textEditorStates (run_deferred f w) = textEditorStates w"
  and pointer_run_deferred [simp]: "activeTextEditorState (run_deferred f w) = activeTextEditorState w"
  and timers_run_deferred [simp]: "timers (run_deferred f w) = timers w"
  and live_run_deferred [simp]: "live (run_deferred f w) = live w"
  and disposables_run_deferred [simp]: "disposables (run_deferred f w) = disposables w"
  and lookup_run_deferred [simp]: "lookup_state (run_deferred f w) k = lookup_state w k"
  by (cases f; simp)+

lemma active_run_deferred [simp]:
  "active (heap (run_deferred f w) ! a) = active (heap w ! a)"
  by (cases f) (simp add: active_invoke)

lemma length_heap_fire [simp]: "length (heap (fire i w)) = length (heap w)"
  and states_fire [simp]: "textEditorStates (fire i w) = textEditorStates w"
  and pointer_fire [simp]: "activeTextEditorState (fire i w) = activeTextEditorState w"
  and live_fire [simp]: "live (fire i w) = live w"
  and disposables_fire [simp]: "disposables (fire i w) = disposables w"
  and active_fire [simp]: "active (heap (fire i w) ! a) = active (heap w ! a)"
  by (simp_all add: fire_def Let_def)

lemma length_heap_interval_callback [simp]: "length (heap (interval_callback i w)) = length (heap w)"
  and states_interval_callback [simp]: "textEditorStates (interval_callback i w) = textEditorStates w"
  and pointer_interval_callback [simp]:
        "activeTextEditorState (interval_callback i w) = activeTextEditorState w"
  and live_interval_callback [simp]: "live (interval_callback i w) = live w"
  and disposables_interval_callback [simp]: "disposables (interval_callback i w) = disposables w"
  and active_interval_callback [simp]: "active (heap (interval_callback i w) ! a) = active (heap w ! a)"
  by (simp_all add: interval_callback_def Let_def)

lemma length_heap_timer_fired [simp]: "length (heap (timer_fired i w)) = length (heap w)"
  and states_timer_fired [simp]: "textEditorStates (timer_fired i w) = textEditorStates w"
  and pointer_timer_fired [simp]: "activeTextEditorState (timer_fired i w) = activeTextEditorState w"
  and live_timer_fired [simp]: "live (timer_fired i w) = live w"
  and disposables_timer_fired [simp]: "disposables (timer_fired i w) = disposables w"
  and active_timer_fired [simp]: "active (heap (timer_fired i w) ! a) = active (heap w ! a)"
  by (simp_all add: timer_fired_def)

lemma lookup_timer_fired [simp]: "lookup_state (timer_fired i w) k = lookup_state w k"
  by (simp add: lookup_state_def)

section \<open>The invariants hold in every reachable world\<close>

lemma refs_opened: "refs_allocated w \<Longrightarrow> refs_allocated (onTypeScriptTextEditorOpened w e)"
  by (auto simp: refs_allocated_def onTypeScriptTextEditorOpened_def lookup_state_def Let_def
      less_Suc_eq split: option.splits if_splits)

lemma refs_focus: "refs_allocated w \<Longrightarrow> refs_allocated (world_of (onTextEditorChanged w r))"
  by (auto simp: refs_allocated_def onTextEditorChanged_def Let_def lookup_state_def
      split: option.splits js_ref.splits)

lemma refs_changing:
  "refs_allocated w \<Longrightarrow> refs_allocated (world_of (onTypeScriptTextEditorContentsChanging w e))"
  by (auto simp: refs_allocated_def onTypeScriptTextEditorContentsChanging_def split: option.splits)

lemma refs_changed:
  "refs_allocated w \<Longrightarrow> refs_allocated (world_of (onTypeScriptTextEditorContentsChanged w e))"
  by (auto simp: refs_allocated_def onTypeScriptTextEditorContentsChanged_def split: option.splits)

lemma refs_hover:
  "refs_allocated w \<Longrightarrow> refs_allocated (world_of (onMouseHoverPositionChanged w e p))"
  by (auto simp: refs_allocated_def onMouseHoverPositionChanged_def Let_def split: option.splits)

lemma refs_cursor:
  "refs_allocated w \<Longrightarrow> refs_allocated (world_of (onCursorPositionChanged w e p q c))"
  by (auto simp: refs_allocated_def onCursorPositionChanged_def split: option.splits)

lemma refs_closed:
  "refs_allocated w \<Longrightarrow> refs_allocated (world_of (onTypeScriptTextEditorClosed w e))"
  by (auto simp: refs_allocated_def onTypeScriptTextEditorClosed_def lookup_state_def
      split: option.splits if_splits)

lemma refs_toggle:
  "refs_allocated w \<Longrightarrow> refs_allocated (fst (world_of (onToggleAutoComplete w f ev)))"
  by (auto simp: refs_allocated_def onToggleAutoComplete_def executeAfterContentChange_def
      lookup_state_def split: option.splits)

lemma refs_guarded:
  "refs_allocated w \<Longrightarrow>
   refs_allocated (fst (world_of (withAutoCompleteInProgress w f ev (guarded_callback c))))"
  by (auto simp: refs_allocated_def withAutoCompleteInProgress_def guarded_callback_def
      split: option.splits)

lemma refs_timer: "refs_allocated w \<Longrightarrow> refs_allocated (timer_fired i w)"
  by (simp add: refs_allocated_def)

lemma refs_dispose: "refs_allocated w \<Longrightarrow> refs_allocated (dispose w)"
  by (simp add: refs_allocated_def dispose_def lookup_state_def)

lemma refs_allocated_step: "refs_allocated w \<Longrightarrow> refs_allocated (step w ev)"
  by (cases ev)
    (simp_all add: refs_opened refs_focus refs_changing refs_changed refs_hover refs_cursor
      refs_closed refs_toggle refs_guarded refs_timer refs_dispose)

lemma opa_opened:
  "only_pointer_active w \<Longrightarrow> only_pointer_active (onTypeScriptTextEditorOpened w e)"
  by (auto simp: only_pointer_active_def onTypeScriptTextEditorOpened_def Let_def new_state_def
      less_Suc_eq nth_append)

lemma opa_focus:
  "only_pointer_active w \<Longrightarrow> only_pointer_active (world_of (onTextEditorChanged w r))"
  by (auto simp: only_pointer_active_def onTextEditorChanged_def Let_def active_invoke
      split: option.splits js_ref.splits if_splits)

lemma opa_changing:
  "only_pointer_active w \<Longrightarrow>
   only_pointer_active (world_of (onTypeScriptTextEditorContentsChanging w e))"
  by (auto simp: only_pointer_active_def onTypeScriptTextEditorContentsChanging_def
      split: option.splits)

lemma opa_changed:
  "only_pointer_active w \<Longrightarrow>
   only_pointer_active (world_of (onTypeScriptTextEditorContentsChanged w e))"
  by (auto simp: only_pointer_active_def onTypeScriptTextEditorContentsChanged_def active_invoke
      split: option.splits)

lemma opa_hover:
  "only_pointer_active w \<Longrightarrow> only_pointer_active (world_of (onMouseHoverPositionChanged w e p))"
  by (auto simp: only_pointer_active_def onMouseHoverPositionChanged_def Let_def active_invoke
      split: option.splits)

lemma opa_cursor:
  "only_pointer_active w \<Longrightarrow> only_pointer_active (world_of (onCursorPositionChanged w e p q c))"
  by (auto simp: only_pointer_active_def onCursorPositionChanged_def active_invoke
      split: option.splits)

lemma opa_closed:
  "only_pointer_active w \<Longrightarrow> only_pointer_active (world_of (onTypeScriptTextEditorClosed w e))"
  by (auto simp: only_pointer_active_def onTypeScriptTextEditorClosed_def active_invoke
      split: option.splits)

lemma opa_toggle:
  "only_pointer_active w \<Longrightarrow> only_pointer_active (fst (world_of (onToggleAutoComplete w f ev)))"
  by (auto simp: only_pointer_active_def onToggleAutoComplete_def executeAfterContentChange_def
      active_invoke split: option.splits)

lemma guarded_method_neq [simp]:
  "guarded_method c \<noteq> Activate" "guarded_method c \<noteq> Deactivate"
  by (cases c; simp)+

lemma opa_guarded:
  "only_pointer_active w \<Longrightarrow>
   only_pointer_active (fst (world_of (withAutoCompleteInProgress w f ev (guarded_callback c))))"
  by (auto simp: only_pointer_active_def withAutoCompleteInProgress_def guarded_callback_def
      active_invoke split: option.splits)

lemma opa_timer: "only_pointer_active w \<Longrightarrow> only_pointer_active (timer_fired i w)"
  by (simp add: only_pointer_active_def)

lemma opa_dispose: "only_pointer_active w \<Longrightarrow> only_pointer_active (dispose w)"
  by (simp add: only_pointer_active_def dispose_def)

lemma only_pointer_active_step: "only_pointer_active w \<Longrightarrow> only_pointer_active (step w ev)"
  by (cases ev)
    (simp_all add: opa_opened opa_focus opa_changing opa_changed opa_hover opa_cursor
      opa_closed opa_toggle opa_guarded opa_timer opa_dispose)

lemma refs_construct: "refs_allocated (construct b)"
  by (simp add: refs_allocated_def construct_def lookup_state_def)

lemma opa_construct: "only_pointer_active (construct b)"
  by (simp add: only_pointer_active_def construct_def)

lemma reachable_refs_allocated: "reachable w \<Longrightarrow> refs_allocated w"
  by (induction rule: reachable.induct) (simp_all add: refs_construct refs_allocated_step)

lemma reachable_only_pointer_active: "reachable w \<Longrightarrow> only_pointer_active w"
  by (induction rule: reachable.induct) (simp_all add: opa_construct only_pointer_active_step)

lemma filter_at_most_one:
  "(\<And>i j. i < length xs \<Longrightarrow> j < length xs \<Longrightarrow> P (xs ! i) \<Longrightarrow> P (xs ! j) \<Longrightarrow> i = j)
   \<Longrightarrow> length (filter P xs) \<le> 1"
proof (induction xs)
  case Nil
  then show ?case by simp
next
  case (Cons x xs)
  have tail: "length (filter P xs) \<le> 1"
  proof (rule Cons.IH)
    fix i j
    assume "i < length xs" "j < length xs" "P (xs ! i)" "P (xs ! j)"
    then have "Suc i = Suc j"
      using Cons.prems [of "Suc i" "Suc j"] by simp
    then show "i = j" by simp
  qed
  show ?case
  proof (cases "P x")
    case False
    with tail show ?thesis by simp
  next
    case True
    have "filter P xs = []"
    proof (rule ccontr)
      assume "filter P xs \<noteq> []"
      then obtain y where "y \<in> set xs" "P y"
        by (metis filter_False)
      then obtain i where "i < length xs" "xs ! i = y"
        by (auto simp: in_set_conv_nth)
      with \<open>P y\<close> True show False
        using Cons.prems [of 0 "Suc i"] by simp
    qed
    with True show ?thesis by simp
  qed
qed

lemma reachable_at_most_one_active:
  assumes "reachable w"
  shows "length (filter active (heap w)) \<le> 1"
proof (rule filter_at_most_one)
  fix i j
  assume "i < length (heap w)" "j < length (heap w)" "active (heap w ! i)" "active (heap w ! j)"
  moreover from assms have "only_pointer_active w"
    by (rule reachable_only_pointer_active)
  ultimately have "activeTextEditorState w = Some i" and "activeTextEditorState w = Some j"
    unfolding only_pointer_active_def by blast+
  then show "i = j" by simp
qed

section \<open>The sample worlds, evaluated\<close>

lemma world_focused_eval:
  "heap world_focused =
     [(new_state editor1)
        \<lparr>dataSlots := (dataSlots (new_state editor1))(''contents-changing'' \<mapsto> False),
         active := True\<rparr>]"
  "activeTextEditorState world_focused = Some 0"
  "calls world_focused = [(0, Activate)]"
  "statusBar world_focused = Some \<lparr>sb_inError = False, sb_visible = True\<rparr>"
  "lookup_state world_focused (ts_id editor1) = Some 0"
  by (simp_all add: world_focused_def run_def onTypeScriptTextEditorOpened_def
      onTextEditorChanged_def construct_def getStatusBar_def updateStatusBar_def invoke_def
      lookup_state_def editor1_def focus1_def new_state_def Let_def)

section \<open>Focus moving to an editor that is not a TypeScript editor\<close>

text \<open>
  C1, as the code has it. When the focus-changed event carries \<open>undefined\<close> or an
  editor whose grammar is not \<open>TypeScript\<close>, \<open>onTextEditorChanged\<close> returns normally
  and what it has done is \<open>getStatusBar()\<close> followed by \<open>hide()\<close>: the status bar
  exists and is hidden, and it was created, with a tile added when the host has a
  \<open>status-bar\<close> element, only if it did not exist before. Every other part of the world
  is as it was: no operation is invoked on any state object, every state object is unchanged
  (so a state that was marked active is still marked active), and
  \<open>_activeTextEditorState\<close>, the mapping, the timers and the registrations are
  unchanged.
\<close>

theorem onTextEditorChanged_unrecognized:
  assumes "textEditor = Undefined \<or>
           (\<exists>te. textEditor = Ref te \<and> grammar_name te \<noteq> ''TypeScript'')"
  shows "onTextEditorChanged w textEditor = Returned (hide (getStatusBar w)) \<and>
         hide (getStatusBar w) =
           w\<lparr>statusBar :=
                Some (case statusBar w of
                        None \<Rightarrow> \<lparr>sb_inError = False, sb_visible = False\<rparr>
                      | Some sb \<Rightarrow> sb\<lparr>sb_visible := False\<rparr>),
             left_tiles :=
                (if statusBar w = None \<and> dom_status_bar w then left_tiles w + 1
                 else left_tiles w)\<rparr> \<and>
         map_option sb_visible (statusBar (hide (getStatusBar w))) = Some False \<and>
         heap (hide (getStatusBar w)) = heap w \<and>
         calls (hide (getStatusBar w)) = calls w \<and>
         activeTextEditorState (hide (getStatusBar w)) = activeTextEditorState w \<and>
         textEditorStates (hide (getStatusBar w)) = textEditorStates w \<and>
         timers (hide (getStatusBar w)) = timers w \<and>
         live (hide (getStatusBar w)) = live w \<and>
         disposables (hide (getStatusBar w)) = disposables w"
proof -
  have "onTextEditorChanged w textEditor = Returned (hide (getStatusBar w))"
    using assms by (auto simp: onTextEditorChanged_def Let_def)
  moreover have "hide (getStatusBar w) =
           w\<lparr>statusBar :=
                Some (case statusBar w of
                        None \<Rightarrow> \<lparr>sb_inError = False, sb_visible = False\<rparr>
                      | Some sb \<Rightarrow> sb\<lparr>sb_visible := False\<rparr>),
             left_tiles :=
                (if statusBar w = None \<and> dom_status_bar w then left_tiles w + 1
                 else left_tiles w)\<rparr>"
    by (cases "statusBar w") (simp_all add: hide_def getStatusBar_def)
  moreover have "map_option sb_visible (statusBar (hide (getStatusBar w))) = Some False"
    by (cases "statusBar w") (simp_all add: hide_def getStatusBar_def)
  ultimately show ?thesis by simp
qed

theorem onTextEditorChanged_unrecognized_witness:
  "grammar_name plain_editor \<noteq> ''TypeScript'' \<and>
   onTextEditorChanged world_focused (Ref plain_editor) =
     Returned (world_focused\<lparr>statusBar := Some \<lparr>sb_inError = False, sb_visible = False\<rparr>\<rparr>) \<and>
   onTextEditorChanged (construct True) Undefined =
     Returned ((construct True)
       \<lparr>statusBar := Some \<lparr>sb_inError = False, sb_visible = False\<rparr>, left_tiles := 1\<rparr>) \<and>
   calls (hide (getStatusBar world_focused)) = [(0, Activate)] \<and>
   activeTextEditorState (hide (getStatusBar world_focused)) = Some 0"
  using onTextEditorChanged_unrecognized [of "Ref plain_editor" world_focused]
    onTextEditorChanged_unrecognized [of Undefined "construct True"]
  by (simp add: plain_editor_def world_focused_eval) (simp add: construct_def)

text \<open>
  C1 as stated fails: with the first editor opened and focused, a focus change to the
  plain-text editor, or to no editor, returns normally and the state of the first editor
  is still marked active and still the coordinator's active state.
\<close>

theorem focus_away_keeps_state_active:
  "returned (onTextEditorChanged world_focused (Ref plain_editor)) \<and>
   map active (heap (world_of (onTextEditorChanged world_focused (Ref plain_editor)))) = [True] \<and>
   activeTextEditorState (world_of (onTextEditorChanged world_focused (Ref plain_editor))) = Some 0 \<and>
   returned (onTextEditorChanged world_focused Undefined) \<and>
   map active (heap (world_of (onTextEditorChanged world_focused Undefined))) = [True]"
  by (simp add: plain_editor_def world_focused_eval onTextEditorChanged_def Let_def)

section \<open>Traces and the mapping\<close>

lemma reachable_foldl: "reachable w \<Longrightarrow> reachable (foldl step w evs)"
  by (induction evs arbitrary: w) (simp_all add: reachable.handled)

lemma reachable_run: "reachable (run b evs)"
  unfolding run_def by (rule reachable_foldl) (rule reachable.constructed)

lemma registered_step:
  assumes "lookup_state w k \<noteq> None" and "\<not> closes k ev"
  shows "lookup_state (step w ev) k \<noteq> None"
proof (cases ev)
  case (EditorOpened e)
  with assms show ?thesis
    by (simp add: onTypeScriptTextEditorOpened_def lookup_state_def Let_def)
next
  case (FocusChanged r)
  with assms show ?thesis
    by (auto simp: onTextEditorChanged_def lookup_state_def Let_def split: js_ref.splits option.splits)
next
  case (ContentsChanging e)
  with assms show ?thesis
    by (simp add: onTypeScriptTextEditorContentsChanging_def split: option.splits)
next
  case (ContentsChanged e)
  with assms show ?thesis
    by (simp add: onTypeScriptTextEditorContentsChanged_def split: option.splits)
next
  case (MouseHover e p)
  with assms show ?thesis
    by (simp add: onMouseHoverPositionChanged_def Let_def split: option.splits)
next
  case (CursorMoved e p q c)
  with assms show ?thesis
    by (simp add: onCursorPositionChanged_def split: option.splits)
next
  case (EditorClosed e)
  with assms show ?thesis
    by (auto simp: onTypeScriptTextEditorClosed_def lookup_state_def split: option.splits)
next
  case (ToggleCommand f)
  with assms show ?thesis
    by (auto simp: onToggleAutoComplete_def executeAfterContentChange_def lookup_state_def
        split: option.splits)
next
  case (GuardedCommand c f)
  with assms show ?thesis
    by (simp add: withAutoCompleteInProgress_def guarded_callback_def split: option.splits)
next
  case (TimerFired i)
  with assms show ?thesis by simp
next
  case WorkspaceDisposed
  with assms show ?thesis by (simp add: dispose_def lookup_state_def)
qed

lemma registered_foldl:
  "lookup_state w k \<noteq> None \<Longrightarrow> \<not> list_ex (closes k) evs \<Longrightarrow>
   lookup_state (foldl step w evs) k \<noteq> None"
proof (induction evs arbitrary: w)
  case Nil
  then show ?case by simp
next
  case (Cons ev evs)
  from Cons.prems have "lookup_state (step w ev) k \<noteq> None"
    by (intro registered_step) simp_all
  moreover from Cons.prems have "\<not> list_ex (closes k) evs"
    by simp
  ultimately have "lookup_state (foldl step (step w ev) evs) k \<noteq> None"
    by (rule Cons.IH)
  then show ?case by simp
qed

lemma registered_opened:
  "lookup_state (onTypeScriptTextEditorOpened w e) (ts_id e) = Some (length (heap w))"
  by (simp add: onTypeScriptTextEditorOpened_def lookup_state_def Let_def)

lemma disposed_invoke:
  "a < length (heap w) \<Longrightarrow> disposed (heap (invoke a DisposeState w) ! a)"
  by (simp add: invoke_def)

lemma world_two_open_eval:
  "map active (heap world_two_open) = [True, False]"
  "length (heap world_two_open) = 2"
  "activeTextEditorState world_two_open = Some 0"
  "calls world_two_open = [(0, Activate)]"
  "lookup_state world_two_open 2 = Some 1"
  by (simp_all add: world_two_open_def run_def onTypeScriptTextEditorOpened_def
      onTextEditorChanged_def construct_def getStatusBar_def updateStatusBar_def invoke_def
      lookup_state_def editor1_def editor2_def focus1_def new_state_def Let_def)

section \<open>At most one active state\<close>

text \<open>
  C5. In every world reachable by a sequence of handled events, at most one state object
  is marked active. A focus change to a TypeScript editor with a registered state returns
  normally; the calls it makes on state objects are \<open>deactivate\<close> on the previously
  active state, if there is one, and then \<open>activate\<close> on the new state, in this
  order; afterwards the new state is the coordinator's active state, it is marked active
  and no other state object is.
\<close>

theorem single_active_state:
  assumes "reachable w"
  shows "length (filter active (heap w)) \<le> 1 \<and>
    (\<forall>te a. grammar_name te = ''TypeScript'' \<and> lookup_state w (editor_id te) = Some a \<longrightarrow>
       (\<exists>w'. onTextEditorChanged w (Ref te) = Returned w' \<and>
          calls w' = calls w @
            (case activeTextEditorState w of None \<Rightarrow> [] | Some p \<Rightarrow> [(p, Deactivate)]) @
            [(a, Activate)] \<and>
          activeTextEditorState w' = Some a \<and>
          active (heap w' ! a) \<and>
          (\<forall>b < length (heap w'). active (heap w' ! b) \<longrightarrow> b = a) \<and>
          length (filter active (heap w')) \<le> 1))"
proof -
  have "\<exists>w'. onTextEditorChanged w (Ref te) = Returned w' \<and>
          calls w' = calls w @
            (case activeTextEditorState w of None \<Rightarrow> [] | Some p \<Rightarrow> [(p, Deactivate)]) @
            [(a, Activate)] \<and>
          activeTextEditorState w' = Some a \<and>
          active (heap w' ! a) \<and>
          (\<forall>b < length (heap w'). active (heap w' ! b) \<longrightarrow> b = a) \<and>
          length (filter active (heap w')) \<le> 1"
    if te: "grammar_name te = ''TypeScript''" and a: "lookup_state w (editor_id te) = Some a"
    for te a
  proof -
    from assms a have alloc: "a < length (heap w)"
      using reachable_refs_allocated refs_allocated_def by blast
    have "\<exists>w'. onTextEditorChanged w (Ref te) = Returned w' \<and>
            calls w' = calls w @
              (case activeTextEditorState w of None \<Rightarrow> [] | Some p \<Rightarrow> [(p, Deactivate)]) @
              [(a, Activate)] \<and>
            activeTextEditorState w' = Some a \<and> active (heap w' ! a)"
      using alloc
      by (cases "activeTextEditorState w")
        (simp_all add: onTextEditorChanged_def Let_def te a active_invoke)
    then obtain w' where ret: "onTextEditorChanged w (Ref te) = Returned w'"
      and cs: "calls w' = calls w @
              (case activeTextEditorState w of None \<Rightarrow> [] | Some p \<Rightarrow> [(p, Deactivate)]) @
              [(a, Activate)]"
      and ptr: "activeTextEditorState w' = Some a" and act: "active (heap w' ! a)"
      by blast
    have "reachable (step w (FocusChanged (Ref te)))"
      using assms by (rule reachable.handled)
    with ret have r': "reachable w'" by simp
    then have "only_pointer_active w'" by (rule reachable_only_pointer_active)
    with ptr have "\<forall>b < length (heap w'). active (heap w' ! b) \<longrightarrow> b = a"
      by (auto simp: only_pointer_active_def)
    moreover from r' have "length (filter active (heap w')) \<le> 1"
      by (rule reachable_at_most_one_active)
    ultimately show ?thesis using ret cs ptr act by blast
  qed
  moreover have "length (filter active (heap w)) \<le> 1"
    using assms by (rule reachable_at_most_one_active)
  ultimately show ?thesis by blast
qed

theorem single_active_state_witness:
  "length (filter active (heap world_two_open)) \<le> 1 \<and>
   (\<exists>w'. onTextEditorChanged world_two_open (Ref focus2) = Returned w' \<and>
      calls w' = [(0, Activate), (0, Deactivate), (1, Activate)] \<and>
      activeTextEditorState w' = Some 1 \<and>
      active (heap w' ! 1) \<and>
      (\<forall>b < length (heap w'). active (heap w' ! b) \<longrightarrow> b = 1) \<and>
      length (filter active (heap w')) \<le> 1)"
proof -
  have "reachable world_two_open"
    unfolding world_two_open_def by (rule reachable_run)
  from single_active_state [OF this] show ?thesis
    by (simp add: world_two_open_eval focus2_def)
qed

section \<open>Closing an editor\<close>

text \<open>
  C7. Take any reachable world, handle the opening of editor \<open>e\<close> and then any events
  among which none is the closing of an editor with this identifier. The identifier is
  registered then, and handling the closing of \<open>e\<close> returns normally, calls
  \<open>dispose\<close> on the registered state object, which is disposed afterwards, and leaves
  the key with the value \<open>undefined\<close>, so that looking the identifier up finds nothing.
\<close>

theorem closed_unregisters:
  assumes "reachable w0" and "\<not> list_ex (closes (ts_id e)) evs"
  shows "let w = foldl step (onTypeScriptTextEditorOpened w0 e) evs
         in \<exists>a w'. lookup_state w (ts_id e) = Some a \<and>
              onTypeScriptTextEditorClosed w e = Returned w' \<and>
              calls w' = calls w @ [(a, DisposeState)] \<and>
              disposed (heap w' ! a) \<and>
              textEditorStates w' (ts_id e) = Some None \<and>
              lookup_state w' (ts_id e) = None"
proof -
  define w where "w = foldl step (onTypeScriptTextEditorOpened w0 e) evs"
  have "reachable (step w0 (EditorOpened e))"
    using assms(1) by (rule reachable.handled)
  then have "reachable w"
    unfolding w_def by (simp add: reachable_foldl)
  have "lookup_state w (ts_id e) \<noteq> None"
    unfolding w_def using assms(2) by (intro registered_foldl) (simp_all add: registered_opened)
  then obtain a where a: "lookup_state w (ts_id e) = Some a"
    by blast
  with \<open>reachable w\<close> have "a < length (heap w)"
    using reachable_refs_allocated refs_allocated_def by blast
  with a have "onTypeScriptTextEditorClosed w e =
      Returned ((invoke a DisposeState w)\<lparr>textEditorStates := (textEditorStates w)(ts_id e \<mapsto> None)\<rparr>) \<and>
    disposed (heap (invoke a DisposeState w) ! a)"
    by (simp add: onTypeScriptTextEditorClosed_def disposed_invoke)
  with a show ?thesis
    unfolding w_def [symmetric] Let_def by (simp add: lookup_state_def)
qed

theorem closed_unregisters_witness:
  "\<exists>w'. onTypeScriptTextEditorClosed world_focused editor1 = Returned w' \<and>
      calls w' = [(0, Activate), (0, DisposeState)] \<and>
      disposed (heap w' ! 0) \<and>
      textEditorStates w' (ts_id editor1) = Some None \<and>
      lookup_state w' (ts_id editor1) = None"
proof -
  have eq: "foldl step (onTypeScriptTextEditorOpened (construct True) editor1)
              [FocusChanged (Ref focus1)] = world_focused"
    by (simp add: world_focused_def run_def)
  have "\<not> list_ex (closes (ts_id editor1)) [FocusChanged (Ref focus1)]"
    by simp
  from closed_unregisters [OF reachable.constructed this, of True]
  have "\<exists>a w'. lookup_state world_focused (ts_id editor1) = Some a \<and>
          onTypeScriptTextEditorClosed world_focused editor1 = Returned w' \<and>
          calls w' = calls world_focused @ [(a, DisposeState)] \<and>
          disposed (heap w' ! a) \<and>
          textEditorStates w' (ts_id editor1) = Some None \<and>
          lookup_state w' (ts_id editor1) = None"
    unfolding eq Let_def .
  then show ?thesis
    by (auto simp: world_focused_eval)
qed

section \<open>More of the sample worlds\<close>

lemma world_completing_eval:
  "autoCompleteInProgress (heap world_completing ! 0)"
  "length (heap world_completing) = 1"
  "calls world_completing = [(0, ToggleAutoComplete)]"
  "timers world_completing =
     [\<lparr>tm_state = 0, tm_func = DeferredToggle 0, intervalCount = 0, tm_delay = 2, tm_cleared = True\<rparr>]"
  "lookup_state world_completing (editor_id focus1) = Some 0"
  by (simp_all add: world_completing_def run_def onTypeScriptTextEditorOpened_def
      onToggleAutoComplete_def executeAfterContentChange_def timer_fired_def
      interval_callback_def fire_def set_slot_def construct_def invoke_def
      lookup_state_def editor1_def focus1_def new_state_def fresh_event_def Let_def)

lemma focus1_registered: "lookup_state world_focused (editor_id focus1) = Some 0"
  using world_focused_eval(5) by (simp add: editor1_def focus1_def)

lemma world_focused_idle: "\<not> autoCompleteInProgress (heap world_focused ! 0)"
  "dataSlots (heap world_focused ! 0) ''contents-changing'' = Some False"
  "diagnosticAt (heap world_focused ! 0) = ts_diagnostics editor1"
  "timers world_focused = []"
  by (simp_all add: world_focused_eval new_state_def)
    (simp add: world_focused_def run_def onTypeScriptTextEditorOpened_def
      onTextEditorChanged_def construct_def getStatusBar_def updateStatusBar_def invoke_def
      lookup_state_def editor1_def focus1_def new_state_def Let_def)

lemma reachable_allocated:
  "reachable w \<Longrightarrow> lookup_state w k = Some a \<Longrightarrow> a < length (heap w)"
  using reachable_refs_allocated refs_allocated_def by blast

section \<open>Hovering\<close>

text \<open>
  C6. For a hover event on an editor whose state is registered: with an empty position the
  tooltip is cleared (whether or not a session is in progress, the position is looked at
  first); with a position and an auto-complete session in progress nothing is done, the
  world is as it was; with a position and no session the tooltip afterwards is the
  diagnostic at that position if the state has one, whatever quick-info there is, else the
  quick-info of the editor at that position if there is one, else none.
\<close>

theorem onMouseHoverPositionChanged_tooltip:
  assumes "reachable w" and "lookup_state w (ts_id e) = Some a"
  shows "(\<exists>w'. onMouseHoverPositionChanged w e None = Returned w' \<and>
            shown_tooltip (heap w' ! a) = None) \<and>
         (autoCompleteInProgress (heap w ! a) \<longrightarrow>
            onMouseHoverPositionChanged w e (Some p) = Returned w) \<and>
         (\<not> autoCompleteInProgress (heap w ! a) \<longrightarrow>
            (\<exists>w'. onMouseHoverPositionChanged w e (Some p) = Returned w' \<and>
               shown_tooltip (heap w' ! a) =
                 (case diagnosticAt (heap w ! a) p of
                    Some d \<Rightarrow> Some (DiagnosticTooltip (messageText d) p)
                  | None \<Rightarrow>
                      (case getQuickInfoForBufferPosition e p of
                         Some info \<Rightarrow> Some (QuickInfoTooltip info p)
                       | None \<Rightarrow> None))))"
proof -
  from assms have "a < length (heap w)"
    by (rule reachable_allocated)
  with assms(2) show ?thesis
    by (simp add: onMouseHoverPositionChanged_def Let_def invoke_def
        split: option.splits)
qed

theorem onMouseHoverPositionChanged_tooltip_witness:
  "getQuickInfoForBufferPosition editor1 (0, 0) = Some ''var x: number'' \<and>
   (\<exists>w'. onMouseHoverPositionChanged world_focused editor1 None = Returned w' \<and>
      shown_tooltip (heap w' ! 0) = None) \<and>
   (\<exists>w'. onMouseHoverPositionChanged world_focused editor1 (Some (0, 0)) = Returned w' \<and>
      shown_tooltip (heap w' ! 0) = Some (DiagnosticTooltip ''Type mismatch'' (0, 0))) \<and>
   onMouseHoverPositionChanged world_completing editor1 (Some (0, 0)) = Returned world_completing"
proof -
  have r1: "reachable world_focused"
    unfolding world_focused_def by (rule reachable_run)
  have r2: "reachable world_completing"
    unfolding world_completing_def by (rule reachable_run)
  have l2: "lookup_state world_completing (ts_id editor1) = Some 0"
    using world_completing_eval(5) by (simp add: editor1_def focus1_def)
  from onMouseHoverPositionChanged_tooltip [OF r1 world_focused_eval(5), of "(0, 0)"]
    onMouseHoverPositionChanged_tooltip [OF r2 l2, of "(0, 0)"]
  show ?thesis
    by (simp add: world_focused_idle world_completing_eval) (simp add: editor1_def)
qed

section \<open>The guard of the auto-complete commands\<close>

text \<open>
  C8. When the focused editor has a registered state: with no auto-complete session in
  progress, \<open>withAutoCompleteInProgress\<close> aborts the key binding and returns the world
  unchanged, whatever the callback is, so the callback has not run; with a session in
  progress it stops the propagation of the event and the world it returns is the
  callback applied once to that state. Each of the four callbacks of the constructor is one
  call on that state.
\<close>

theorem withAutoCompleteInProgress_guard:
  assumes "lookup_state w (editor_id te) = Some a"
  shows "(\<not> autoCompleteInProgress (heap w ! a) \<longrightarrow>
            withAutoCompleteInProgress w (Some te) ev callback =
              Returned (w, ev\<lparr>keyBindingAborted := True\<rparr>)) \<and>
         (autoCompleteInProgress (heap w ! a) \<longrightarrow>
            withAutoCompleteInProgress w (Some te) ev callback =
              Returned (callback a w, ev\<lparr>propagationStopped := True\<rparr>)) \<and>
         calls (guarded_callback c a w) = calls w @ [(a, guarded_method c)]"
  using assms by (simp add: withAutoCompleteInProgress_def guarded_callback_def)

theorem withAutoCompleteInProgress_guard_witness:
  "withAutoCompleteInProgress world_focused (Some focus1) fresh_event (guarded_callback Confirm) =
     Returned (world_focused, fresh_event\<lparr>keyBindingAborted := True\<rparr>) \<and>
   withAutoCompleteInProgress world_completing (Some focus1) fresh_event (guarded_callback Confirm) =
     Returned (guarded_callback Confirm 0 world_completing,
               fresh_event\<lparr>propagationStopped := True\<rparr>) \<and>
   calls (guarded_callback Confirm 0 world_completing) =
     [(0, ToggleAutoComplete), (0, ConfirmAutoCompleteItem)]"
  using withAutoCompleteInProgress_guard [OF focus1_registered, of fresh_event "guarded_callback Confirm" Confirm]
    withAutoCompleteInProgress_guard [OF world_completing_eval(5), of fresh_event "guarded_callback Confirm" Confirm]
  by (simp add: world_focused_idle world_completing_eval)

section \<open>Further sample worlds\<close>



section \<open>The bound of the polling\<close>

text \<open>
  While the slot stays truthy and the counter is at most 50, a tick only increments the
  counter: the comparison \<open>intervalCount++ > maxIntervals\<close> sees the values
  \<open>0, 1, \<dots>, 50\<close> on the first 51 ticks and is false on each of them.
\<close>

lemma polling_waits:
  assumes "i < length (timers w)" and "\<not> tm_cleared (timers w ! i)"
    and "truthy (dataSlots (heap w ! tm_state (timers w ! i)) ''contents-changing'')"
    and "intervalCount (timers w ! i) + n \<le> 51"
  shows "(timer_fired i ^^ n) w =
           w\<lparr>timers := (timers w)[i := (timers w ! i)\<lparr>intervalCount := intervalCount (timers w ! i) + n\<rparr>]\<rparr>"
  using assms(4)
proof (induction n)
  case 0
  show ?case by simp
next
  case (Suc n)
  let ?t = "(timers w ! i)\<lparr>intervalCount := intervalCount (timers w ! i) + n\<rparr>"
  let ?w = "w\<lparr>timers := (timers w)[i := ?t]\<rparr>"
  from Suc have before: "(timer_fired i ^^ n) w = ?w"
    by simp
  from Suc.prems have count: "\<not> maxIntervals < intervalCount (timers w ! i) + n"
    by (simp add: maxIntervals_def)
  have "(timer_fired i ^^ Suc n) w = timer_fired i ((timer_fired i ^^ n) w)"
    by simp
  also have "\<dots> = timer_fired i ?w"
    by (simp only: before)
  also have "\<dots> = interval_callback i ?w"
    using assms(1,2) by (simp add: timer_fired_def)
  also have "\<dots> =
      w\<lparr>timers := (timers w)[i := (timers w ! i)\<lparr>intervalCount := intervalCount (timers w ! i) + Suc n\<rparr>]\<rparr>"
    using assms(1,3) count by (simp add: interval_callback_def Let_def)
  finally show ?case .
qed

lemma world_polling_eval:
  "timers world_polling =
     [\<lparr>tm_state = 0, tm_func = DeferredToggle 0, intervalCount = 0, tm_delay = 2, tm_cleared = False\<rparr>]"
  "truthy (dataSlots (heap world_polling ! 0) ''contents-changing'')"
  "length (heap world_polling) = 1"
  "calls world_polling = []"
  "\<not> autoCompleteInProgress (heap world_polling ! 0)"
  by (simp_all add: world_polling_def run_def onTypeScriptTextEditorOpened_def
      onTypeScriptTextEditorContentsChanging_def onToggleAutoComplete_def
      executeAfterContentChange_def set_slot_def construct_def
      lookup_state_def editor1_def focus1_def new_state_def fresh_event_def Let_def)

lemma world_polling_after:
  "n \<le> 51 \<Longrightarrow> (timer_fired 0 ^^ n) world_polling =
     world_polling\<lparr>timers :=
       [\<lparr>tm_state = 0, tm_func = DeferredToggle 0, intervalCount = n, tm_delay = 2, tm_cleared = False\<rparr>]\<rparr>"
  by (subst polling_waits) (simp_all add: world_polling_eval)

text \<open>
  C2, the code at the input where the claim fails. The first editor is opened, its
  contents start changing and never settle, and the toggle command is given. The timer has
  not called the deferred function after 50 ticks, nor after 51 ticks, and is still
  running; the 52nd tick calls it, sets the slot to false and clears the timer. With the
  delay of 2 that is 104 time units after the command, not 100.
\<close>

theorem polling_fires_on_tick_52:
  "calls ((timer_fired 0 ^^ 50) world_polling) = [] \<and>
   \<not> tm_cleared (timers ((timer_fired 0 ^^ 50) world_polling) ! 0) \<and>
   calls ((timer_fired 0 ^^ 51) world_polling) = [] \<and>
   \<not> tm_cleared (timers ((timer_fired 0 ^^ 51) world_polling) ! 0) \<and>
   \<not> autoCompleteInProgress (heap ((timer_fired 0 ^^ 51) world_polling) ! 0) \<and>
   calls ((timer_fired 0 ^^ 52) world_polling) = [(0, ToggleAutoComplete)] \<and>
   tm_cleared (timers ((timer_fired 0 ^^ 52) world_polling) ! 0) \<and>
   autoCompleteInProgress (heap ((timer_fired 0 ^^ 52) world_polling) ! 0) \<and>
   dataSlots (heap ((timer_fired 0 ^^ 52) world_polling) ! 0) ''contents-changing'' = Some False"
proof -
  have a50: "(timer_fired 0 ^^ 50) world_polling =
      world_polling\<lparr>timers :=
        [\<lparr>tm_state = 0, tm_func = DeferredToggle 0, intervalCount = 50, tm_delay = 2,
          tm_cleared = False\<rparr>]\<rparr>"
    by (rule world_polling_after) simp
  have a51: "(timer_fired 0 ^^ 51) world_polling =
      world_polling\<lparr>timers :=
        [\<lparr>tm_state = 0, tm_func = DeferredToggle 0, intervalCount = 51, tm_delay = 2,
          tm_cleared = False\<rparr>]\<rparr>"
    by (rule world_polling_after) simp
  have "(timer_fired 0 ^^ 52) world_polling = (timer_fired 0 ^^ Suc 51) world_polling"
    by simp
  also have "\<dots> = timer_fired 0 ((timer_fired 0 ^^ 51) world_polling)"
    by (simp only: funpow.simps o_apply)
  finally have a52: "(timer_fired 0 ^^ 52) world_polling =
      timer_fired 0 (world_polling\<lparr>timers :=
        [\<lparr>tm_state = 0, tm_func = DeferredToggle 0, intervalCount = 51, tm_delay = 2,
          tm_cleared = False\<rparr>]\<rparr>)"
    by (simp only: a51)
  show ?thesis
    unfolding a50 a51 a52
    by (simp add: world_polling_eval timer_fired_def interval_callback_def
        fire_def invoke_def set_slot_def maxIntervals_def Let_def)
qed

section \<open>Closing the active editor\<close>

text \<open>
  C4, the code at the input where the claim fails. The first editor is opened, focused and
  closed: its state object, at address 0, is disposed, and \<open>_activeTextEditorState\<close>
  still points at it. The second editor is then opened and focused: the focus-changed
  handler calls \<open>deactivate\<close> on the object at address 0, after its \<open>dispose\<close>.
\<close>

theorem close_active_then_focus:
  "calls (run True [EditorOpened editor1, FocusChanged (Ref focus1), EditorClosed editor1]) =
     [(0, Activate), (0, DisposeState)] \<and>
   disposed (heap (run True [EditorOpened editor1, FocusChanged (Ref focus1), EditorClosed editor1]) ! 0) \<and>
   activeTextEditorState (run True [EditorOpened editor1, FocusChanged (Ref focus1), EditorClosed editor1]) = Some 0 \<and>
   calls (run True trace_close_active) =
     [(0, Activate), (0, DisposeState), (0, Deactivate), (1, Activate)]"
  by (simp add: trace_close_active_def run_def onTypeScriptTextEditorOpened_def
      onTextEditorChanged_def onTypeScriptTextEditorClosed_def construct_def getStatusBar_def
      updateStatusBar_def invoke_def lookup_state_def editor1_def editor2_def focus1_def
      focus2_def new_state_def Let_def)

section \<open>What dispose releases\<close>

text \<open>
  No handler changes \<open>_disposables\<close>, and no handler other than \<open>dispose\<close> releases
  anything.
\<close>

lemma disposables_step: "disposables (step w ev) = disposables w"
proof (cases ev)
  case (EditorOpened e)
  then show ?thesis by (simp add: onTypeScriptTextEditorOpened_def Let_def)
next
  case (FocusChanged r)
  then show ?thesis
    by (simp add: onTextEditorChanged_def Let_def split: js_ref.splits option.splits)
next
  case (ContentsChanging e)
  then show ?thesis
    by (simp add: onTypeScriptTextEditorContentsChanging_def split: option.splits)
next
  case (ContentsChanged e)
  then show ?thesis
    by (simp add: onTypeScriptTextEditorContentsChanged_def split: option.splits)
next
  case (MouseHover e p)
  then show ?thesis
    by (simp add: onMouseHoverPositionChanged_def Let_def split: option.splits)
next
  case (CursorMoved e p q c)
  then show ?thesis
    by (simp add: onCursorPositionChanged_def split: option.splits)
next
  case (EditorClosed e)
  then show ?thesis
    by (simp add: onTypeScriptTextEditorClosed_def split: option.splits)
next
  case (ToggleCommand f)
  then show ?thesis
    by (simp add: onToggleAutoComplete_def executeAfterContentChange_def split: option.splits)
next
  case (GuardedCommand c f)
  then show ?thesis
    by (simp add: withAutoCompleteInProgress_def guarded_callback_def split: option.splits)
next
  case (TimerFired i)
  then show ?thesis by simp
next
  case WorkspaceDisposed
  then show ?thesis by (simp add: dispose_def)
qed

lemma live_step:
  assumes "r \<in> set (live w)" and "r \<notin> set (disposables w)"
  shows "r \<in> set (live (step w ev))"
proof (cases ev)
  case (EditorOpened e)
  with assms show ?thesis by (simp add: onTypeScriptTextEditorOpened_def Let_def)
next
  case (FocusChanged r)
  with assms show ?thesis
    by (simp add: onTextEditorChanged_def Let_def split: js_ref.splits option.splits)
next
  case (ContentsChanging e)
  with assms show ?thesis
    by (simp add: onTypeScriptTextEditorContentsChanging_def split: option.splits)
next
  case (ContentsChanged e)
  with assms show ?thesis
    by (simp add: onTypeScriptTextEditorContentsChanged_def split: option.splits)
next
  case (MouseHover e p)
  with assms show ?thesis
    by (simp add: onMouseHoverPositionChanged_def Let_def split: option.splits)
next
  case (CursorMoved e p q c)
  with assms show ?thesis
    by (simp add: onCursorPositionChanged_def split: option.splits)
next
  case (EditorClosed e)
  with assms show ?thesis
    by (simp add: onTypeScriptTextEditorClosed_def split: option.splits)
next
  case (ToggleCommand f)
  with assms show ?thesis
    by (simp add: onToggleAutoComplete_def executeAfterContentChange_def split: option.splits)
next
  case (GuardedCommand c f)
  with assms show ?thesis
    by (simp add: withAutoCompleteInProgress_def guarded_callback_def split: option.splits)
next
  case (TimerFired i)
  with assms show ?thesis by simp
next
  case WorkspaceDisposed
  with assms show ?thesis by (simp add: dispose_def)
qed

lemma reachable_disposables: "reachable w \<Longrightarrow> disposables w = pushed"
  by (induction rule: reachable.induct) (simp_all add: construct_def disposables_step)

lemma subscription_not_pushed: "StreamSubscription s \<notin> set pushed"
  by (simp add: pushed_def)

lemma reachable_subscribed:
  assumes "reachable w"
  shows "StreamSubscription EditorOpenedStream \<in> set (live w) \<and>
         StreamSubscription FocusChangedStream \<in> set (live w)"
  using assms
proof (induction rule: reachable.induct)
  case (constructed has_bar)
  show ?case by (simp add: construct_def)
next
  case (handled w ev)
  then show ?case
    by (simp add: live_step reachable_disposables subscription_not_pushed)
qed

text \<open>
  C3, as the code has it. In every reachable world \<open>_disposables\<close> holds the five
  command registrations and the key-binding registration made by the constructor, and
  after \<open>dispose\<close> none of these six is held any more. The two subscriptions the
  constructor made to the editor-opened and focus-changed streams were never pushed onto
  \<open>_disposables\<close>; they are still held after \<open>dispose\<close>.
\<close>

theorem dispose_releases_registrations:
  assumes "reachable w"
  shows "disposables w = pushed \<and>
         set (live (dispose w)) \<inter> set pushed = {} \<and>
         StreamSubscription EditorOpenedStream \<in> set (live (dispose w)) \<and>
         StreamSubscription FocusChangedStream \<in> set (live (dispose w))"
proof -
  from assms have d: "disposables w = pushed"
    by (rule reachable_disposables)
  have "reachable (step w WorkspaceDisposed)"
    using assms by (rule reachable.handled)
  then have "StreamSubscription EditorOpenedStream \<in> set (live (dispose w)) \<and>
         StreamSubscription FocusChangedStream \<in> set (live (dispose w))"
    using reachable_subscribed by fastforce
  moreover have "set (live (dispose w)) \<inter> set pushed = {}"
    by (auto simp: dispose_def d)
  ultimately show ?thesis using d by blast
qed

theorem dispose_releases_registrations_witness:
  "live (construct True) =
     [StreamSubscription EditorOpenedStream, StreamSubscription FocusChangedStream] @ pushed \<and>
   disposables (construct True) = pushed \<and>
   set (live (dispose (construct True))) \<inter> set pushed = {} \<and>
   StreamSubscription EditorOpenedStream \<in> set (live (dispose (construct True))) \<and>
   StreamSubscription FocusChangedStream \<in> set (live (dispose (construct True)))"
  using dispose_releases_registrations [OF reachable.constructed, of True]
  by (simp add: construct_def)

text \<open>
  C3 as stated fails: the constructor acquires the two stream subscriptions, and directly
  after \<open>dispose\<close> they are exactly what is still held.
\<close>

theorem dispose_keeps_stream_subscriptions:
  "StreamSubscription EditorOpenedStream \<in> set (live (construct True)) \<and>
   StreamSubscription FocusChangedStream \<in> set (live (construct True)) \<and>
   live (dispose (construct True)) =
     [StreamSubscription EditorOpenedStream, StreamSubscription FocusChangedStream]"
  by (simp add: construct_def dispose_def pushed_def)

section \<open>When the command handlers raise\<close>




section \<open>The toggle command\<close>















end
